theory Spec2Isabelle
  imports Main
begin

section \<open>The node updater of pyvlx (\<^verbatim>\<open>pyvlx/node_updater.py\<close>)\<close>

text \<open>
  \<^verbatim>\<open>NodeUpdater\<close> receives decoded frames from the house monitor and updates the node
  objects of the registry \<^verbatim>\<open>pyvlx.nodes\<close> in place. The embedding passes the registry
  and the sequence of \<^verbatim>\<open>after_update\<close> calls explicitly, returns a raised exception
  as a value, and takes the reading of the clock (\<^verbatim>\<open>datetime.datetime.now()\<close>) as an
  argument.
\<close>

subsection \<open>Values of the parameter codec\<close>

text \<open>
  Modelled from the spec: the parameter codec (\<^verbatim>\<open>pyvlx/parameter.py\<close>) is not part of
  the sources at hand. A \<^verbatim>\<open>Parameter\<close> of a frame is represented by the non-negative
  integer its two wire bytes decode to; \<^verbatim>\<open>Position(p).position\<close> and
  \<^verbatim>\<open>Intensity(p).intensity\<close> read that integer back. The threshold
  \<^verbatim>\<open>Parameter.MAX\<close> ("maximum valid value") is an argument \<open>Parameter_MAX\<close> of every
  function that compares against it.
\<close>

type_synonym parameter = nat

datatype Position = Position (position_of: parameter)

datatype Intensity = Intensity (intensity_of: parameter)

datatype LimitationTime = LimitationTime (limit_raw: int)

text \<open>
  Modelled from the spec: \<^verbatim>\<open>OperatingState\<close> of \<^verbatim>\<open>pyvlx/const.py\<close>. The updater only
  compares against \<^verbatim>\<open>EXECUTING\<close>; the spec also names \<^verbatim>\<open>DONE\<close>.
\<close>

datatype OperatingState = EXECUTING | DONE | OtherOperatingState nat

text \<open>
  A \<^verbatim>\<open>datetime\<close> is counted in microseconds, the resolution of Python's
  \<^verbatim>\<open>datetime\<close>; \<^verbatim>\<open>timedelta(days, seconds)\<close> is a number of microseconds.
\<close>

type_synonym datetime = int

definition timedelta :: "int \<Rightarrow> int \<Rightarrow> int" where
  "timedelta days seconds = (days * 86400 + seconds) * 1000000"

subsection \<open>Nodes and the registry\<close>

text \<open>
  Modelled from the spec: the node classes (\<^verbatim>\<open>pyvlx/opening_device.py\<close>,
  \<^verbatim>\<open>pyvlx/lightening_device.py\<close>) are not part of the sources at hand. \<open>Blind\<close> is
  a subclass of \<open>OpeningDevice\<close>; lights and on/off switches are classes of their
  own; \<open>OtherNode\<close> stands for every other node class.
\<close>

datatype node_class =
  OpeningDeviceClass | BlindClass | LighteningDeviceClass | OnOffSwitchClass | OtherNodeClass

text \<open>
  One record holds every attribute the updater reads or assigns. A Python object
  accepts an assignment to an attribute it does not have yet, so \<open>target_position\<close>
  (assigned in line 137 only) is an optional field.
\<close>

record node =
  node_class :: node_class
  name :: string
  position :: Position
  target :: Position
  orientation :: Position
  is_opening :: bool
  is_closing :: bool
  state_received_at :: "datetime option"
  estimated_completion :: "datetime option"
  limitation_max :: Position
  limitation_min :: Position
  limitation_originator :: nat
  limitation_time :: LimitationTime
  intensity :: Intensity
  target_position :: "Position option"

definition isinstance_OpeningDevice :: "node \<Rightarrow> bool" where
  "isinstance_OpeningDevice n =
     (node_class n = OpeningDeviceClass \<or> node_class n = BlindClass)"

definition isinstance_Blind :: "node \<Rightarrow> bool" where
  "isinstance_Blind n = (node_class n = BlindClass)"

definition isinstance_LighteningDevice :: "node \<Rightarrow> bool" where
  "isinstance_LighteningDevice n = (node_class n = LighteningDeviceClass)"

text \<open>
  \<open>nodes\<close> is \<^verbatim>\<open>pyvlx.nodes\<close>, keyed by node id. \<open>after_update_calls\<close> lists the
  ids of the nodes whose \<^verbatim>\<open>after_update()\<close> hook has been awaited, oldest first.
\<close>

record pyvlx =
  nodes :: "nat \<rightharpoonup> node"
  after_update_calls :: "nat list"

definition store_node :: "nat \<Rightarrow> node \<Rightarrow> pyvlx \<Rightarrow> pyvlx" where
  "store_node node_id n s = s\<lparr>nodes := (nodes s)(node_id \<mapsto> n)\<rparr>"

definition after_update :: "nat \<Rightarrow> pyvlx \<Rightarrow> pyvlx" where
  "after_update node_id s = s\<lparr>after_update_calls := after_update_calls s @ [node_id]\<rparr>"

subsection \<open>Frames\<close>

text \<open>
  The arguments of the two position frames are \<open>node_id\<close>, \<open>current_position\<close>,
  \<open>target\<close>, \<open>state\<close> and \<open>remaining_time\<close>; of the status request frame \<open>node_id\<close>
  and \<open>parameter_data\<close> (a dictionary from \<^verbatim>\<open>NodeParameter\<close> numbers to parameters);
  of the limitation frame \<open>node_id\<close>, \<open>max_value\<close>, \<open>min_value\<close>, \<open>limit_originator\<close>
  and \<open>limit_time\<close>. \<open>OtherFrame\<close> is a frame of any other class.
\<close>

datatype frame =
    FrameGetAllNodesInformationNotification nat parameter parameter OperatingState int
  | FrameNodeStatePositionChangedNotification nat parameter parameter OperatingState int
  | FrameStatusRequestNotification nat "nat \<rightharpoonup> parameter"
  | FrameGetLimitationStatusNotification nat nat nat nat int
  | OtherFrame

datatype error = NameError | PyVLXException

text \<open>
  A call returns (\<open>Inr\<close>, with the registry it leaves) or raises (\<open>Inl\<close>, with the
  exception and the registry as it is at that moment: the nodes are changed in place, so
  what was assigned before the exception stays assigned).
\<close>

type_synonym outcome = "(error \<times> pyvlx) + pyvlx"

subsection \<open>\<^verbatim>\<open>process_frame_status_request_notification\<close> (lines 23-44)\<close>

definition process_frame_status_request_notification ::
  "nat \<Rightarrow> nat \<Rightarrow> (nat \<rightharpoonup> parameter) \<Rightarrow> pyvlx \<Rightarrow> pyvlx" where
  "process_frame_status_request_notification Parameter_MAX node_id parameter_data s =
     (case nodes s node_id of
        None \<Rightarrow> s
      | Some n \<Rightarrow>
          if isinstance_Blind n then
            (case parameter_data 0 of
               None \<Rightarrow> s
             | Some mp \<Rightarrow>
                 (case parameter_data 3 of
                    None \<Rightarrow> s
                  | Some fp3 \<Rightarrow>
                      let pos = Position mp;
                          ori = Position fp3;
                          n1 = (if position_of pos \<le> Parameter_MAX
                                then n\<lparr>position := pos\<rparr> else n);
                          n2 = (if position_of ori \<le> Parameter_MAX
                                then n1\<lparr>orientation := ori\<rparr> else n1)
                      in after_update node_id (store_node node_id n2 s)))
          else s)"

subsection \<open>\<^verbatim>\<open>process_frame_limitation_status_notification\<close> (lines 46-57)\<close>

text \<open>
  \<^verbatim>\<open>Position(position=v)\<close> (lines 53-54) is the keyword form of the constructor.
  Unlike \<^verbatim>\<open>Position(parameter)\<close>, which takes over the bytes of a decoded parameter, it
  converts an integer and raises \<^verbatim>\<open>PyVLXException\<close> for one the codec does not accept.
  The codec is not part of the sources at hand: its check of an integer is the argument
  \<open>is_valid_int\<close>.
\<close>

definition Position_from_int :: "(nat \<Rightarrow> bool) \<Rightarrow> nat \<Rightarrow> error + Position" where
  "Position_from_int is_valid_int v =
     (if is_valid_int v then Inr (Position v) else Inl PyVLXException)"

text \<open>
  The four assignments of lines 53-56 run in this order, each on the node itself: when
  the second constructor raises, \<open>limitation_max\<close> has been assigned already.
\<close>

definition process_frame_limitation_status_notification ::
  "(nat \<Rightarrow> bool) \<Rightarrow> nat \<Rightarrow> nat \<Rightarrow> nat \<Rightarrow> nat \<Rightarrow> int \<Rightarrow> pyvlx \<Rightarrow> outcome" where
  "process_frame_limitation_status_notification is_valid_int node_id max_value min_value
       limit_originator limit_time s =
     (case nodes s node_id of
        None \<Rightarrow> Inr s
      | Some n \<Rightarrow>
          if isinstance_OpeningDevice n then
            (case Position_from_int is_valid_int max_value of
               Inl e \<Rightarrow> Inl (e, s)
             | Inr pmax \<Rightarrow>
                 let n1 = n\<lparr>limitation_max := pmax\<rparr>;
                     s1 = store_node node_id n1 s
                 in (case Position_from_int is_valid_int min_value of
                       Inl e \<Rightarrow> Inl (e, s1)
                     | Inr pmin \<Rightarrow>
                         let n2 = n1\<lparr>limitation_min := pmin,
                                     limitation_originator := limit_originator,
                                     limitation_time := LimitationTime limit_time\<rparr>
                         in Inr (after_update node_id (store_node node_id n2 s1))))
          else Inr s)"

subsection \<open>\<^verbatim>\<open>process_frame\<close> (lines 59-159)\<close>

text \<open>The conditions of the two directional branches (lines 80-83 and 94-97).\<close>

definition opening_condition ::
  "nat \<Rightarrow> Position \<Rightarrow> Position \<Rightarrow> OperatingState \<Rightarrow> int \<Rightarrow> bool" where
  "opening_condition Parameter_MAX pos tgt state remaining_time =
     ((position_of pos > position_of tgt \<and> position_of tgt \<le> Parameter_MAX)
      \<and> (state = EXECUTING \<or> remaining_time > 0))"

definition closing_condition ::
  "nat \<Rightarrow> Position \<Rightarrow> Position \<Rightarrow> OperatingState \<Rightarrow> int \<Rightarrow> bool" where
  "closing_condition Parameter_MAX pos tgt state remaining_time =
     ((position_of pos < position_of tgt \<and> position_of tgt \<le> Parameter_MAX)
      \<and> (state = EXECUTING \<or> remaining_time > 0))"

text \<open>The two statements of the last branch (lines 109-113 and 114-116).\<close>

definition stop_opening :: "node \<Rightarrow> node" where
  "stop_opening n =
     (if is_opening n
      then n\<lparr>is_opening := False, state_received_at := None, estimated_completion := None\<rparr>
      else n)"

definition stop_closing :: "node \<Rightarrow> node" where
  "stop_closing n = (if is_closing n then n\<lparr>is_closing := False\<rparr> else n)"

text \<open>"Set opening device status" (lines 79-116).\<close>

definition set_opening_device_status ::
  "nat \<Rightarrow> datetime \<Rightarrow> Position \<Rightarrow> Position \<Rightarrow> OperatingState \<Rightarrow> int \<Rightarrow> node \<Rightarrow> node" where
  "set_opening_device_status Parameter_MAX now pos tgt state remaining_time n =
     (if isinstance_OpeningDevice n then
        if opening_condition Parameter_MAX pos tgt state remaining_time then
          n\<lparr>is_opening := True,
            state_received_at := Some now,
            estimated_completion := Some (now + timedelta 0 remaining_time)\<rparr>
        else if closing_condition Parameter_MAX pos tgt state remaining_time then
          n\<lparr>is_closing := True,
            state_received_at := Some now,
            estimated_completion := Some (now + timedelta 0 remaining_time)\<rparr>
        else stop_closing (stop_opening n)
      else n)"

text \<open>
  "Set main parameter" (lines 119-155). The chain tests \<^verbatim>\<open>OpeningDevice\<close> twice. The
  module imports neither \<^verbatim>\<open>OnOffSwitch\<close> nor \<^verbatim>\<open>SwitchParameter\<close>, so evaluating
  \<^verbatim>\<open>isinstance(node, OnOffSwitch)\<close> in line 145 raises \<^verbatim>\<open>NameError\<close> and lines
  146-155 are never run. The argument \<open>n\<close> is the node as lines 79-116 have left it.
\<close>

definition set_main_parameter ::
  "nat \<Rightarrow> nat \<Rightarrow> parameter \<Rightarrow> parameter \<Rightarrow> Position \<Rightarrow> Position \<Rightarrow> node \<Rightarrow> pyvlx
     \<Rightarrow> outcome" where
  "set_main_parameter Parameter_MAX node_id current_position frame_target pos tgt n s =
     (if isinstance_OpeningDevice n then
        Inr (after_update node_id
               (store_node node_id
                  (if position_of pos \<le> Parameter_MAX
                   then n\<lparr>position := pos, target := tgt\<rparr> else n) s))
      else if isinstance_OpeningDevice n then
        (let n1 = (if position_of pos \<le> Parameter_MAX then n\<lparr>position := pos\<rparr> else n);
             tp = Position frame_target;
             n2 = (if position_of tp \<le> Parameter_MAX
                   then n1\<lparr>target_position := Some tp\<rparr> else n1)
         in Inr (after_update node_id (store_node node_id n2 s)))
      else if isinstance_LighteningDevice n then
        (let i = Intensity current_position;
             n1 = (if intensity_of i \<le> Parameter_MAX then n\<lparr>intensity := i\<rparr> else n)
         in Inr (after_update node_id (store_node node_id n1 s)))
      else Inl (NameError, store_node node_id n s))"

text \<open>The branch of the two position frames (lines 68-155).\<close>

definition process_position_frame ::
  "nat \<Rightarrow> datetime \<Rightarrow> nat \<Rightarrow> parameter \<Rightarrow> parameter \<Rightarrow> OperatingState \<Rightarrow> int \<Rightarrow> pyvlx
     \<Rightarrow> outcome" where
  "process_position_frame Parameter_MAX now node_id current_position frame_target state
       remaining_time s =
     (case nodes s node_id of
        None \<Rightarrow> Inr s
      | Some n \<Rightarrow>
          let pos = Position current_position;
              tgt = Position frame_target
          in set_main_parameter Parameter_MAX node_id current_position frame_target pos tgt
               (set_opening_device_status Parameter_MAX now pos tgt state remaining_time n) s)"

fun process_frame ::
  "nat \<Rightarrow> (nat \<Rightarrow> bool) \<Rightarrow> datetime \<Rightarrow> frame \<Rightarrow> pyvlx \<Rightarrow> outcome" where
  "process_frame Parameter_MAX is_valid_int now
       (FrameGetAllNodesInformationNotification node_id current_position frame_target state
          remaining_time) s =
     process_position_frame Parameter_MAX now node_id current_position frame_target state
       remaining_time s"
| "process_frame Parameter_MAX is_valid_int now
       (FrameNodeStatePositionChangedNotification node_id current_position frame_target state
          remaining_time) s =
     process_position_frame Parameter_MAX now node_id current_position frame_target state
       remaining_time s"
| "process_frame Parameter_MAX is_valid_int now
       (FrameStatusRequestNotification node_id parameter_data) s =
     Inr (process_frame_status_request_notification Parameter_MAX node_id parameter_data s)"
| "process_frame Parameter_MAX is_valid_int now
       (FrameGetLimitationStatusNotification node_id max_value min_value limit_originator
          limit_time) s =
     process_frame_limitation_status_notification is_valid_int node_id max_value min_value
       limit_originator limit_time s"
| "process_frame Parameter_MAX is_valid_int now OtherFrame s = Inr s"

subsection \<open>Sequences of frames\<close>

text \<open>
  The house monitor hands the frames to \<open>process_frame\<close> one at a time, each with
  its own reading of the clock. An exception ends the run.
\<close>

fun process_frames ::
  "nat \<Rightarrow> (nat \<Rightarrow> bool) \<Rightarrow> (datetime \<times> frame) list \<Rightarrow> pyvlx \<Rightarrow> outcome" where
  "process_frames Parameter_MAX is_valid_int [] s = Inr s"
| "process_frames Parameter_MAX is_valid_int ((now, f) # fs) s =
     (case process_frame Parameter_MAX is_valid_int now f s of
        Inl e \<Rightarrow> Inl e
      | Inr s' \<Rightarrow> process_frames Parameter_MAX is_valid_int fs s')"

text \<open>The node stored under an id once a call has returned.\<close>

definition node_after :: "outcome \<Rightarrow> nat \<Rightarrow> node option" where
  "node_after r node_id = (case r of Inl e \<Rightarrow> None | Inr s \<Rightarrow> nodes s node_id)"

text \<open>
  Modelled from the spec: the codec's check of an integer (\<^verbatim>\<open>pyvlx/parameter.py\<close>) is not
  part of the sources at hand, and the theorems below hold for every check. The runs use
  this one: a value up to \<^verbatim>\<open>Parameter.MAX\<close>, or one of the reserved values of the protocol
  above it (0xF7FF, the "no feed-back value known" of line 74, 0xD400, 0xD200, 0xD100).
\<close>

definition reserved_values :: "nat list" where
  "reserved_values = [63487, 54272, 53760, 53504]"

definition valid_int :: "nat \<Rightarrow> nat \<Rightarrow> bool" where
  "valid_int Parameter_MAX v = (v \<le> Parameter_MAX \<or> v \<in> set reserved_values)"

text \<open>Nodes and a registry to run the updater on: an idle window, a blind, a light, a switch.\<close>

definition idle_node :: "node_class \<Rightarrow> node" where
  "idle_node c =
     \<lparr>node_class = c, name = ''node'', position = Position 0, target = Position 0,
      orientation = Position 0, is_opening = False, is_closing = False,
      state_received_at = None, estimated_completion = None,
      limitation_max = Position 0, limitation_min = Position 0,
      limitation_originator = 0, limitation_time = LimitationTime 0,
      intensity = Intensity 0, target_position = None\<rparr>"

definition house :: pyvlx where
  "house =
     \<lparr>nodes = [1 \<mapsto> idle_node OpeningDeviceClass, 2 \<mapsto> idle_node BlindClass,
               3 \<mapsto> idle_node LighteningDeviceClass, 4 \<mapsto> idle_node OnOffSwitchClass],
      after_update_calls = []\<rparr>"

text \<open>A window on its way down, as a closing branch leaves it.\<close>

definition closing_node :: node where
  "closing_node = (idle_node OpeningDeviceClass)
     \<lparr>is_closing := True, state_received_at := Some 5, estimated_completion := Some 35\<rparr>"

section \<open>The effect of a frame on one node\<close>

lemma node_class_set_opening_device_status:
  "node_class (set_opening_device_status Parameter_MAX now pos tgt st rt n) = node_class n"
  by (simp add: set_opening_device_status_def stop_opening_def stop_closing_def)

lemma isinstance_OpeningDevice_set_status:
  "isinstance_OpeningDevice (set_opening_device_status Parameter_MAX now pos tgt st rt n)
     = isinstance_OpeningDevice n"
  by (simp add: isinstance_OpeningDevice_def node_class_set_opening_device_status)

lemma set_status_other_class:
  "\<not> isinstance_OpeningDevice n \<Longrightarrow>
     set_opening_device_status Parameter_MAX now pos tgt st rt n = n"
  by (simp add: set_opening_device_status_def)

lemma position_frame_on_opening_device:
  assumes "nodes s node_id = Some n" and "isinstance_OpeningDevice n"
  shows "process_position_frame Parameter_MAX now node_id cur tgt st rt s =
     Inr (after_update node_id (store_node node_id
       (if cur \<le> Parameter_MAX
        then (set_opening_device_status Parameter_MAX now (Position cur) (Position tgt) st rt n)
               \<lparr>position := Position cur, target := Position tgt\<rparr>
        else set_opening_device_status Parameter_MAX now (Position cur) (Position tgt) st rt n)
       s))"
  using assms
  by (simp add: process_position_frame_def set_main_parameter_def
      isinstance_OpeningDevice_set_status Let_def)

lemma store_node_same:
  "nodes s node_id = Some n \<Longrightarrow> store_node node_id n s = s"
  by (simp add: store_node_def map_upd_triv)

lemma position_frame_on_other_node:
  assumes "nodes s node_id = Some n" and "\<not> isinstance_OpeningDevice n"
  shows "process_position_frame Parameter_MAX now node_id cur tgt st rt s =
     (if isinstance_LighteningDevice n
      then Inr (after_update node_id (store_node node_id
             (if cur \<le> Parameter_MAX then n\<lparr>intensity := Intensity cur\<rparr> else n) s))
      else Inl (NameError, s))"
  using assms
  by (simp add: process_position_frame_def set_main_parameter_def
      set_status_other_class store_node_same Let_def)

text \<open>
  The only position frames that raise are those for a node that is neither an opening
  device nor a light; nothing has been assigned by then.
\<close>

lemma position_frame_raises:
  "process_position_frame Parameter_MAX now fid cur tgt st rt s = Inl x \<longleftrightarrow>
     x = (NameError, s)
     \<and> (\<exists>n. nodes s fid = Some n \<and> \<not> isinstance_OpeningDevice n
          \<and> \<not> isinstance_LighteningDevice n)"
proof (cases "nodes s fid")
  case None
  then show ?thesis by (simp add: process_position_frame_def)
next
  case (Some n)
  show ?thesis
  proof (cases "isinstance_OpeningDevice n")
    case True
    then show ?thesis
      by (simp add: Some position_frame_on_opening_device [OF Some True])
  next
    case False
    then show ?thesis
      by (auto simp: Some position_frame_on_other_node [OF Some False])
  qed
qed

lemma nodes_after_update_store:
  "nodes (after_update i (store_node j m s)) k = (if k = j then Some m else nodes s k)"
  by (simp add: after_update_def store_node_def)

lemma calls_after_update_store:
  "after_update_calls (after_update i (store_node j m s)) = after_update_calls s @ [i]"
  by (simp add: after_update_def store_node_def)

text \<open>What a position frame does to the node stored under any id.\<close>

lemma position_frame_node:
  assumes "process_position_frame Parameter_MAX now fid cur tgt st rt s = Inr s'"
    and "nodes s node_id = Some n"
  shows "nodes s' node_id = Some
     (if fid \<noteq> node_id then n
      else if isinstance_OpeningDevice n then
        (if cur \<le> Parameter_MAX
         then (set_opening_device_status Parameter_MAX now (Position cur) (Position tgt) st rt n)
                \<lparr>position := Position cur, target := Position tgt\<rparr>
         else set_opening_device_status Parameter_MAX now (Position cur) (Position tgt) st rt n)
      else (if cur \<le> Parameter_MAX then n\<lparr>intensity := Intensity cur\<rparr> else n))"
proof (cases "fid = node_id")
  case True
  show ?thesis
  proof (cases "isinstance_OpeningDevice n")
    case od: True
    from assms(1) show ?thesis
      unfolding True position_frame_on_opening_device [OF assms(2) od]
      using od by (auto simp: nodes_after_update_store)
  next
    case od: False
    from assms(1) show ?thesis
      unfolding True position_frame_on_other_node [OF assms(2) od]
      using od by (auto simp: nodes_after_update_store split: if_splits)
  qed
next
  case False
  show ?thesis
  proof (cases "nodes s fid")
    case None
    with assms False show ?thesis by (simp add: process_position_frame_def)
  next
    case (Some m)
    show ?thesis
    proof (cases "isinstance_OpeningDevice m")
      case od: True
      from assms False show ?thesis
        unfolding position_frame_on_opening_device [OF Some od]
        by (auto simp: nodes_after_update_store)
    next
      case od: False
      from assms False show ?thesis
        unfolding position_frame_on_other_node [OF Some od]
        by (auto simp: nodes_after_update_store split: if_splits)
    qed
  qed
qed

lemma status_request_node:
  assumes "nodes s node_id = Some n"
  shows "nodes (process_frame_status_request_notification Parameter_MAX fid pd s) node_id = Some
     (if fid = node_id \<and> isinstance_Blind n then
        (case (pd 0, pd 3) of
           (Some mp, Some fp3) \<Rightarrow>
             (if fp3 \<le> Parameter_MAX
              then (if mp \<le> Parameter_MAX then n\<lparr>position := Position mp\<rparr> else n)
                     \<lparr>orientation := Position fp3\<rparr>
              else (if mp \<le> Parameter_MAX then n\<lparr>position := Position mp\<rparr> else n))
         | _ \<Rightarrow> n)
      else n)"
  using assms
  by (auto simp: process_frame_status_request_notification_def nodes_after_update_store
      Let_def split: option.splits)

lemma limitation_status_node:
  assumes "process_frame_limitation_status_notification is_valid_int fid mx mn orig lt s
             = Inr s'"
    and "nodes s node_id = Some n"
  shows "nodes s' node_id = Some
     (if fid = node_id \<and> isinstance_OpeningDevice n then
        n\<lparr>limitation_max := Position mx, limitation_min := Position mn,
          limitation_originator := orig, limitation_time := LimitationTime lt\<rparr>
      else n)"
  using assms
  by (auto simp: process_frame_limitation_status_notification_def Position_from_int_def
      store_node_def after_update_def Let_def split: option.splits if_splits)

lemma set_status_fields:
  "position (set_opening_device_status Parameter_MAX now pos tgt st rt n) = position n"
  "target (set_opening_device_status Parameter_MAX now pos tgt st rt n) = target n"
  "orientation (set_opening_device_status Parameter_MAX now pos tgt st rt n) = orientation n"
  "intensity (set_opening_device_status Parameter_MAX now pos tgt st rt n) = intensity n"
  "target_position (set_opening_device_status Parameter_MAX now pos tgt st rt n)
     = target_position n"
  by (simp_all add: set_opening_device_status_def stop_opening_def stop_closing_def)

lemma set_status_flags:
  "is_opening (set_opening_device_status Parameter_MAX now pos tgt st rt n) =
     (if isinstance_OpeningDevice n
      then opening_condition Parameter_MAX pos tgt st rt
         \<or> closing_condition Parameter_MAX pos tgt st rt \<and> is_opening n
      else is_opening n)"
  "is_closing (set_opening_device_status Parameter_MAX now pos tgt st rt n) =
     (if isinstance_OpeningDevice n
      then (if opening_condition Parameter_MAX pos tgt st rt then is_closing n
            else closing_condition Parameter_MAX pos tgt st rt)
      else is_closing n)"
  "estimated_completion (set_opening_device_status Parameter_MAX now pos tgt st rt n) =
     (if isinstance_OpeningDevice n
      then (if opening_condition Parameter_MAX pos tgt st rt
              \<or> closing_condition Parameter_MAX pos tgt st rt
            then Some (now + timedelta 0 rt)
            else if is_opening n then None else estimated_completion n)
      else estimated_completion n)"
  by (auto simp: set_opening_device_status_def stop_opening_def stop_closing_def
      opening_condition_def closing_condition_def)

lemma not_opening_and_closing_condition:
  "opening_condition Parameter_MAX pos tgt st rt \<Longrightarrow>
     \<not> closing_condition Parameter_MAX pos tgt st rt"
  by (simp add: opening_condition_def closing_condition_def)

text \<open>The equations that evaluate a run on a concrete registry.\<close>

lemmas run_defs =
  house_def idle_node_def process_position_frame_def set_main_parameter_def
  set_opening_device_status_def opening_condition_def closing_condition_def
  stop_opening_def stop_closing_def store_node_def after_update_def
  isinstance_OpeningDevice_def isinstance_Blind_def isinstance_LighteningDevice_def
  process_frame_status_request_notification_def
  process_frame_limitation_status_notification_def Position_from_int_def valid_int_def
  reserved_values_def timedelta_def node_after_def Let_def

section \<open>Properties\<close>

text \<open>
  C9: a frame of any of the four kinds whose node id is not in the registry changes
  no node, calls no hook and raises nothing: the updater returns the state it was given.
\<close>

theorem unknown_node_id_is_ignored:
  assumes "nodes s node_id = None"
  shows "process_frame Parameter_MAX is_valid_int now
           (FrameGetAllNodesInformationNotification node_id cur tgt st rt) s = Inr s
       \<and> process_frame Parameter_MAX is_valid_int now
           (FrameNodeStatePositionChangedNotification node_id cur tgt st rt) s = Inr s
       \<and> process_frame Parameter_MAX is_valid_int now
           (FrameStatusRequestNotification node_id pd) s = Inr s
       \<and> process_frame Parameter_MAX is_valid_int now
           (FrameGetLimitationStatusNotification node_id mx mn orig lt) s = Inr s"
  using assms
  by (simp add: process_position_frame_def process_frame_status_request_notification_def
      process_frame_limitation_status_notification_def)

theorem unknown_node_id_is_ignored_witness:
  "process_frame 51200 (valid_int 51200) 0
        (FrameGetAllNodesInformationNotification 9 0 0 EXECUTING 5) house
     = Inr house
   \<and> process_frame 51200 (valid_int 51200) 0
         (FrameNodeStatePositionChangedNotification 9 0 0 EXECUTING 5) house
     = Inr house
   \<and> process_frame 51200 (valid_int 51200) 0
         (FrameStatusRequestNotification 9 [0 \<mapsto> 1, 3 \<mapsto> 2]) house
     = Inr house
   \<and> process_frame 51200 (valid_int 51200) 0
         (FrameGetLimitationStatusNotification 9 1 2 3 4) house = Inr house"
proof -
  have "nodes house 9 = None" by (simp add: house_def)
  from unknown_node_id_is_ignored [OF this] show ?thesis by blast
qed

text \<open>
  C10: the second \<^verbatim>\<open>OpeningDevice\<close> branch of the chain (lines 132-138), the only code
  that assigns \<open>target_position\<close>, is never taken, since the same test decides the
  branch before it: no frame of any kind changes, or creates, the \<open>target_position\<close> of
  any node, and a node the registry does not hold is not created.
\<close>

theorem target_position_never_written:
  assumes "process_frame Parameter_MAX is_valid_int now f s = Inr s'"
  shows "map_option target_position (nodes s' node_id)
       = map_option target_position (nodes s node_id)"
proof (cases "nodes s node_id")
  case None
  with assms show ?thesis
    by (cases f)
      (auto simp: process_position_frame_def set_main_parameter_def
        process_frame_status_request_notification_def
        process_frame_limitation_status_notification_def Position_from_int_def
        store_node_def after_update_def Let_def
        split: option.splits if_splits)
next
  case (Some n)
  show ?thesis
  proof (cases f)
    case (FrameGetAllNodesInformationNotification fid cur tgt st rt)
    with assms position_frame_node [OF _ Some, of Parameter_MAX now fid cur tgt st rt s']
    show ?thesis by (simp add: Some set_status_fields)
  next
    case (FrameNodeStatePositionChangedNotification fid cur tgt st rt)
    with assms position_frame_node [OF _ Some, of Parameter_MAX now fid cur tgt st rt s']
    show ?thesis by (simp add: Some set_status_fields)
  next
    case (FrameStatusRequestNotification fid pd)
    with assms status_request_node [OF Some, of Parameter_MAX fid pd]
    show ?thesis by (auto simp: Some split: option.splits)
  next
    case (FrameGetLimitationStatusNotification fid mx mn orig lt)
    with assms have "process_frame_limitation_status_notification is_valid_int fid mx mn
        orig lt s = Inr s'"
      by simp
    from limitation_status_node [OF this Some] show ?thesis by (auto simp: Some)
  next
    case OtherFrame
    with assms show ?thesis by auto
  qed
qed

theorem target_position_never_written_witness:
  "\<exists>s'. process_frame 51200 (valid_int 51200) 0
        (FrameNodeStatePositionChangedNotification 1 40 70 EXECUTING 30)
           house = Inr s'
      \<and> map_option target_position (nodes s' 1) = Some None"
proof -
  obtain s' where run:
    "process_frame 51200 (valid_int 51200) 0
          (FrameNodeStatePositionChangedNotification 1 40 70 EXECUTING 30)
       house = Inr s'"
    by (simp add: run_defs)
  from target_position_never_written [OF run, of 1]
  have "map_option target_position (nodes s' 1) = Some None"
    by (simp add: house_def idle_node_def)
  with run show ?thesis by blast
qed

text \<open>
  C4: a position frame (either kind) addressed to an opening device takes the opening
  branch exactly when position > target, the target is at most \<open>Parameter_MAX\<close> and the
  state is \<open>EXECUTING\<close> or the remaining time is positive: the node is then opening,
  \<open>state_received_at\<close> is the reading of the clock and \<open>estimated_completion\<close> that
  reading plus the remaining time in seconds (a \<open>datetime\<close> counts microseconds).
  Otherwise it takes the closing branch exactly when position < target under the same
  two conditions, with the same time stamps. In every other case neither branch is
  taken: both flags end up false and no time stamp is set to the clock.
\<close>

theorem motion_inference_branches:
  assumes "nodes s node_id = Some n"
    and "isinstance_OpeningDevice n"
    and "f = FrameGetAllNodesInformationNotification node_id cur tgt st rt
       \<or> f = FrameNodeStatePositionChangedNotification node_id cur tgt st rt"
  shows "\<exists>s' n'. process_frame Parameter_MAX is_valid_int now f s = Inr s'
     \<and> nodes s' node_id = Some n'
     \<and> (if tgt < cur \<and> tgt \<le> Parameter_MAX \<and> (st = EXECUTING \<or> 0 < rt)
        then is_opening n' \<and> is_closing n' = is_closing n
           \<and> state_received_at n' = Some now
           \<and> estimated_completion n' = Some (now + rt * 1000000)
        else if cur < tgt \<and> tgt \<le> Parameter_MAX \<and> (st = EXECUTING \<or> 0 < rt)
        then is_closing n' \<and> is_opening n' = is_opening n
           \<and> state_received_at n' = Some now
           \<and> estimated_completion n' = Some (now + rt * 1000000)
        else \<not> is_opening n' \<and> \<not> is_closing n'
           \<and> state_received_at n' = (if is_opening n then None else state_received_at n)
           \<and> estimated_completion n'
               = (if is_opening n then None else estimated_completion n))"
proof -
  have "process_frame Parameter_MAX is_valid_int now f s =
      process_position_frame Parameter_MAX now node_id cur tgt st rt s"
    using assms(3) by auto
  then show ?thesis
    unfolding position_frame_on_opening_device [OF assms(1,2)]
    by (simp add: set_opening_device_status_def assms(2) opening_condition_def
        closing_condition_def stop_opening_def stop_closing_def timedelta_def
        store_node_def after_update_def)
qed

theorem motion_inference_branches_witness:
  "(\<exists>s' n'. process_frame 51200 (valid_int 51200) 7
        (FrameNodeStatePositionChangedNotification 1 70 40 DONE 30)
            house = Inr s' \<and> nodes s' 1 = Some n'
      \<and> is_opening n' \<and> \<not> is_closing n'
      \<and> state_received_at n' = Some 7 \<and> estimated_completion n' = Some 30000007)
 \<and> (\<exists>s' n'. process_frame 51200 (valid_int 51200) 7
       (FrameGetAllNodesInformationNotification 1 40 70 EXECUTING 0)
            house = Inr s' \<and> nodes s' 1 = Some n'
      \<and> is_closing n' \<and> \<not> is_opening n'
      \<and> state_received_at n' = Some 7 \<and> estimated_completion n' = Some 7)
 \<and> (\<exists>s' n'. process_frame 51200 (valid_int 51200) 7
       (FrameNodeStatePositionChangedNotification 1 70 40 DONE 0)
            house = Inr s' \<and> nodes s' 1 = Some n'
      \<and> \<not> is_opening n' \<and> \<not> is_closing n'
      \<and> state_received_at n' = None \<and> estimated_completion n' = None)"
proof -
  have n: "nodes house 1 = Some (idle_node OpeningDeviceClass)"
    by (simp add: house_def)
  have od: "isinstance_OpeningDevice (idle_node OpeningDeviceClass)"
    by (simp add: isinstance_OpeningDevice_def idle_node_def)
  have a: "\<exists>s' n'. process_frame 51200 (valid_int 51200) 7
       (FrameNodeStatePositionChangedNotification 1 70 40 DONE 30) house = Inr s'
      \<and> nodes s' 1 = Some n' \<and> is_opening n' \<and> \<not> is_closing n'
      \<and> state_received_at n' = Some 7 \<and> estimated_completion n' = Some 30000007"
    using motion_inference_branches [OF n od disjI2 [OF refl], where cur = 70 and tgt = 40
        and st = DONE and rt = 30 and Parameter_MAX = 51200
        and is_valid_int = "valid_int 51200" and now = 7]
    by (simp add: idle_node_def)
  have b: "\<exists>s' n'. process_frame 51200 (valid_int 51200) 7
       (FrameGetAllNodesInformationNotification 1 40 70 EXECUTING 0) house = Inr s'
      \<and> nodes s' 1 = Some n' \<and> is_closing n' \<and> \<not> is_opening n'
      \<and> state_received_at n' = Some 7 \<and> estimated_completion n' = Some 7"
    using motion_inference_branches [OF n od disjI1 [OF refl], where cur = 40 and tgt = 70
        and st = EXECUTING and rt = 0 and Parameter_MAX = 51200
        and is_valid_int = "valid_int 51200" and now = 7]
    by (simp add: idle_node_def)
  have c: "\<exists>s' n'. process_frame 51200 (valid_int 51200) 7
       (FrameNodeStatePositionChangedNotification 1 70 40 DONE 0) house = Inr s'
      \<and> nodes s' 1 = Some n' \<and> \<not> is_opening n' \<and> \<not> is_closing n'
      \<and> state_received_at n' = None \<and> estimated_completion n' = None"
    using motion_inference_branches [OF n od disjI2 [OF refl], where cur = 70 and tgt = 40
        and st = DONE and rt = 0 and Parameter_MAX = 51200
        and is_valid_int = "valid_int 51200" and now = 7]
    by (simp add: idle_node_def)
  from a b c show ?thesis by blast
qed

text \<open>
  C6: when a position frame addressed to an opening device takes neither directional
  branch, both flags are false afterwards. If the node was opening, \<open>state_received_at\<close>
  and \<open>estimated_completion\<close> are cleared; if it was not (so also when it was closing),
  both keep the values they had. The statement of lines 114-116 by itself, \<open>stop_closing\<close>,
  clears \<open>is_closing\<close> and leaves \<open>is_opening\<close> and both time stamps of any node as they are.
\<close>

theorem idle_branch_clears_flags:
  assumes "nodes s node_id = Some n"
    and "isinstance_OpeningDevice n"
    and "f = FrameGetAllNodesInformationNotification node_id cur tgt st rt
       \<or> f = FrameNodeStatePositionChangedNotification node_id cur tgt st rt"
    and "\<not> opening_condition Parameter_MAX (Position cur) (Position tgt) st rt"
    and "\<not> closing_condition Parameter_MAX (Position cur) (Position tgt) st rt"
  shows "\<exists>s' n'. process_frame Parameter_MAX is_valid_int now f s = Inr s'
     \<and> nodes s' node_id = Some n'
     \<and> \<not> is_opening n' \<and> \<not> is_closing n'
     \<and> state_received_at n' = (if is_opening n then None else state_received_at n)
     \<and> estimated_completion n' = (if is_opening n then None else estimated_completion n)
     \<and> \<not> is_closing (stop_closing m)
     \<and> is_opening (stop_closing m) = is_opening m
     \<and> state_received_at (stop_closing m) = state_received_at m
     \<and> estimated_completion (stop_closing m) = estimated_completion m"
proof -
  have "process_frame Parameter_MAX is_valid_int now f s =
      process_position_frame Parameter_MAX now node_id cur tgt st rt s"
    using assms(3) by auto
  then show ?thesis
    unfolding position_frame_on_opening_device [OF assms(1,2)]
    by (simp add: set_opening_device_status_def assms(2,4,5) stop_opening_def
        stop_closing_def store_node_def after_update_def)
qed

theorem idle_branch_clears_flags_witness:
  "\<exists>s' n'. process_frame 51200 (valid_int 51200) 9
        (FrameNodeStatePositionChangedNotification 1 70 70 DONE 0)
       (house\<lparr>nodes := (nodes house)(1 \<mapsto> closing_node)\<rparr>) = Inr s'
     \<and> nodes s' 1 = Some n' \<and> \<not> is_opening n' \<and> \<not> is_closing n'
     \<and> state_received_at n' = Some 5 \<and> estimated_completion n' = Some 35
     \<and> \<not> is_closing (stop_closing closing_node)
     \<and> estimated_completion (stop_closing closing_node) = Some 35"
proof -
  have n: "nodes (house\<lparr>nodes := (nodes house)(1 \<mapsto> closing_node)\<rparr>) 1 = Some closing_node"
    by simp
  have od: "isinstance_OpeningDevice closing_node"
    by (simp add: isinstance_OpeningDevice_def closing_node_def idle_node_def)
  have no: "\<not> opening_condition 51200 (Position 70) (Position 70) DONE 0"
    by (simp add: opening_condition_def)
  have nc: "\<not> closing_condition 51200 (Position 70) (Position 70) DONE 0"
    by (simp add: closing_condition_def)
  show ?thesis
    using idle_branch_clears_flags [OF n od disjI2 [OF refl] no nc, where now = 9
        and is_valid_int = "valid_int 51200"
        and m = closing_node]
    by (auto simp: closing_node_def idle_node_def stop_closing_def)
qed

text \<open>
  C7: the claim that every limitation status frame for an opening device overwrites the
  four limitation fields and then calls the hook fails on the code. The constructor
  \<^verbatim>\<open>Position(position=51201)\<close> raises: no field is written and no hook is called. With
  \<open>max_value\<close> 63487, which the codec accepts, and \<open>min_value\<close> 65535, which it does not,
  the call raises after \<open>limitation_max\<close> has been assigned, and calls no hook.
\<close>

theorem limitation_status_raises_on_rejected_value:
  "\<not> valid_int 51200 51201
   \<and> process_frame 51200 (valid_int 51200) 0
         (FrameGetLimitationStatusNotification 1 51201 0 2 253) house
       = Inl (PyVLXException, house)
   \<and> valid_int 51200 63487 \<and> \<not> valid_int 51200 65535
   \<and> process_frame 51200 (valid_int 51200) 0
         (FrameGetLimitationStatusNotification 1 63487 65535 2 253) house
       = Inl (PyVLXException,
              store_node 1 ((idle_node OpeningDeviceClass)\<lparr>limitation_max := Position 63487\<rparr>)
                house)"
  by (simp add: run_defs)

text \<open>
  C7, as amended: a limitation status frame whose node id resolves to an opening device,
  and whose \<open>max_value\<close> and \<open>min_value\<close> the codec accepts as integers, overwrites
  \<open>limitation_max\<close>, \<open>limitation_min\<close>, \<open>limitation_originator\<close> and \<open>limitation_time\<close> with
  the values of the frame (nothing is compared with \<open>Parameter_MAX\<close>, so an accepted value
  above it is written too), changes no other field, and calls the hook of that node once.
\<close>

theorem limitation_status_overwrites:
  assumes "nodes s node_id = Some n" and "isinstance_OpeningDevice n"
    and "is_valid_int mx" and "is_valid_int mn"
  shows "\<exists>s'. process_frame Parameter_MAX is_valid_int now
            (FrameGetLimitationStatusNotification node_id mx mn orig lt) s = Inr s'
     \<and> nodes s' node_id = Some
          (n\<lparr>limitation_max := Position mx, limitation_min := Position mn,
            limitation_originator := orig, limitation_time := LimitationTime lt\<rparr>)
     \<and> after_update_calls s' = after_update_calls s @ [node_id]"
  using assms
  by (simp add: process_frame_limitation_status_notification_def Position_from_int_def
      store_node_def after_update_def Let_def)

theorem limitation_status_overwrites_witness:
  "\<not> (63487 :: nat) \<le> 51200
   \<and> (\<exists>s'. process_frame 51200 (valid_int 51200) 0
          (FrameGetLimitationStatusNotification 1 63487 63487 2 253) house = Inr s'
        \<and> map_option limitation_max (nodes s' 1) = Some (Position 63487)
        \<and> map_option limitation_min (nodes s' 1) = Some (Position 63487)
        \<and> map_option limitation_originator (nodes s' 1) = Some 2
        \<and> map_option limitation_time (nodes s' 1) = Some (LimitationTime 253)
        \<and> after_update_calls s' = [1])"
proof -
  have n: "nodes house 1 = Some (idle_node OpeningDeviceClass)"
    by (simp add: house_def)
  have od: "isinstance_OpeningDevice (idle_node OpeningDeviceClass)"
    by (simp add: isinstance_OpeningDevice_def idle_node_def)
  have v: "valid_int 51200 63487"
    by (simp add: valid_int_def reserved_values_def)
  show ?thesis
    using limitation_status_overwrites [where is_valid_int = "valid_int 51200"
        and mx = 63487 and mn = 63487 and Parameter_MAX = 51200 and now = 0
        and orig = 2 and lt = 253, OF n od v v]
    by (auto simp: house_def)
qed

text \<open>
  C8: a status request frame addressed to a blind returns the state it was given (no
  field written, no hook called) when the main parameter (key 0) or functional parameter 3
  (key 3) is missing. When both are present, \<open>position\<close> is the decoded main parameter if
  that is at most \<open>Parameter_MAX\<close> and is unchanged otherwise, likewise \<open>orientation\<close> and
  functional parameter 3, and the hook of the node is called once (also when nothing was
  written).
\<close>

theorem status_request_on_blind:
  assumes "nodes s node_id = Some n" and "isinstance_Blind n"
  shows "(pd 0 = None \<or> pd 3 = None \<longrightarrow>
            process_frame Parameter_MAX is_valid_int now
              (FrameStatusRequestNotification node_id pd) s = Inr s)
     \<and> (\<forall>mp fp3. pd 0 = Some mp \<and> pd 3 = Some fp3 \<longrightarrow>
          (\<exists>s' n'. process_frame Parameter_MAX is_valid_int now
                  (FrameStatusRequestNotification node_id pd) s
                = Inr s'
             \<and> nodes s' node_id = Some n'
             \<and> position n' = (if mp \<le> Parameter_MAX then Position mp else position n)
             \<and> orientation n' = (if fp3 \<le> Parameter_MAX then Position fp3 else orientation n)
             \<and> after_update_calls s' = after_update_calls s @ [node_id]))"
  using assms
  by (auto simp: process_frame_status_request_notification_def nodes_after_update_store
      calls_after_update_store Let_def split: option.splits)

theorem status_request_on_blind_witness:
  "process_frame 51200 (valid_int 51200) 0 (FrameStatusRequestNotification 2 [0 \<mapsto> 55])
       house = Inr house
   \<and> (\<exists>s' n'. process_frame 51200 (valid_int 51200) 0
            (FrameStatusRequestNotification 2 [0 \<mapsto> 55, 3 \<mapsto> 63487])
          house = Inr s'
        \<and> nodes s' 2 = Some n' \<and> position n' = Position 55 \<and> orientation n' = Position 0
        \<and> after_update_calls s' = [2])"
proof -
  have n: "nodes house 2 = Some (idle_node BlindClass)"
    by (simp add: house_def)
  have b: "isinstance_Blind (idle_node BlindClass)"
    by (simp add: isinstance_Blind_def idle_node_def)
  have "process_frame 51200 (valid_int 51200) 0 (FrameStatusRequestNotification 2 [0 \<mapsto> 55])
      house = Inr house"
    using status_request_on_blind [OF n b, where pd = "[0 \<mapsto> 55]" and Parameter_MAX = 51200
        and is_valid_int = "valid_int 51200" and now = 0]
    by simp
  moreover have "\<exists>s' n'. process_frame 51200 (valid_int 51200) 0
        (FrameStatusRequestNotification 2 [0 \<mapsto> 55, 3 \<mapsto> 63487]) house = Inr s'
      \<and> nodes s' 2 = Some n' \<and> position n' = Position 55 \<and> orientation n' = Position 0
      \<and> after_update_calls s' = [2]"
    using status_request_on_blind [OF n b, where pd = "[0 \<mapsto> 55, 3 \<mapsto> 63487]"
        and Parameter_MAX = 51200 and is_valid_int = "valid_int 51200" and now = 0]
    by (simp add: idle_node_def house_def)
  ultimately show ?thesis by blast
qed

text \<open>
  C2: the claim that no frame makes the updater raise fails on the code. A position frame
  of either kind addressed to an on/off switch of the registry reaches line 145, where the
  name \<^verbatim>\<open>OnOffSwitch\<close> is not bound: \<^verbatim>\<open>NameError\<close>, with the registry as it was.
\<close>

theorem position_frame_on_switch_raises_NameError:
  "nodes house 4 = Some (idle_node OnOffSwitchClass)
   \<and> process_frame 51200 (valid_int 51200) 0
         (FrameNodeStatePositionChangedNotification 4 0 0 DONE 0) house
       = Inl (NameError, house)
   \<and> process_frame 51200 (valid_int 51200) 0
         (FrameGetAllNodesInformationNotification 4 0 0 DONE 0) house
       = Inl (NameError, house)"
  by (simp add: run_defs)

text \<open>
  C1: the claim that the two flags are never both true after a call fails on the code:
  the opening branch sets \<open>is_opening\<close> and leaves \<open>is_closing\<close> as it is (and the closing
  branch likewise). An idle window that receives a closing frame and then, still on its
  way, an opening frame ends with both flags true.
\<close>

theorem closing_then_opening_sets_both_flags:
  "map_option is_opening (nodes house 1) = Some False
   \<and> map_option is_closing (nodes house 1) = Some False
   \<and> map_option is_opening (node_after (process_frames 51200 (valid_int 51200)
        [(0, FrameNodeStatePositionChangedNotification 1 40 70 EXECUTING 30),
         (5, FrameNodeStatePositionChangedNotification 1 55 40 EXECUTING 30)] house) 1)
       = Some True
   \<and> map_option is_closing (node_after (process_frames 51200 (valid_int 51200)
        [(0, FrameNodeStatePositionChangedNotification 1 40 70 EXECUTING 30),
         (5, FrameNodeStatePositionChangedNotification 1 55 40 EXECUTING 30)] house) 1)
       = Some True"
  by (simp add: run_defs)

text \<open>
  C1, as amended: for a node with at most one of the two flags set, after a call with a
  frame of any kind both flags are true exactly when the frame is a position frame
  addressed to this node, the node is an opening device, and the frame takes the opening
  branch while \<open>is_closing\<close> is true or the closing branch while \<open>is_opening\<close> is true.
  In every other case at most one flag is set after the call.
\<close>

theorem both_flags_only_after_reversal:
  assumes "process_frame Parameter_MAX is_valid_int now f s = Inr s'"
    and "nodes s node_id = Some n"
    and "\<not> (is_opening n \<and> is_closing n)"
  shows "\<exists>n'. nodes s' node_id = Some n' \<and>
     ((is_opening n' \<and> is_closing n') =
        (\<exists>cur tgt st rt.
           (f = FrameGetAllNodesInformationNotification node_id cur tgt st rt
            \<or> f = FrameNodeStatePositionChangedNotification node_id cur tgt st rt)
           \<and> isinstance_OpeningDevice n
           \<and> (opening_condition Parameter_MAX (Position cur) (Position tgt) st rt
                \<and> is_closing n
              \<or> closing_condition Parameter_MAX (Position cur) (Position tgt) st rt
                \<and> is_opening n)))"
proof (cases f)
  case (FrameGetAllNodesInformationNotification fid cur tgt st rt)
  with assms(1) have "process_position_frame Parameter_MAX now fid cur tgt st rt s = Inr s'"
    by simp
  from position_frame_node [OF this assms(2)] assms(3) show ?thesis
    using not_opening_and_closing_condition [of Parameter_MAX "Position cur" "Position tgt" st rt]
    by (auto simp: FrameGetAllNodesInformationNotification set_status_flags)
next
  case (FrameNodeStatePositionChangedNotification fid cur tgt st rt)
  with assms(1) have "process_position_frame Parameter_MAX now fid cur tgt st rt s = Inr s'"
    by simp
  from position_frame_node [OF this assms(2)] assms(3) show ?thesis
    using not_opening_and_closing_condition [of Parameter_MAX "Position cur" "Position tgt" st rt]
    by (auto simp: FrameNodeStatePositionChangedNotification set_status_flags)
next
  case (FrameStatusRequestNotification fid pd)
  with assms status_request_node [OF assms(2), of Parameter_MAX fid pd]
  show ?thesis by (auto split: option.splits)
next
  case (FrameGetLimitationStatusNotification fid mx mn orig lt)
  with assms(1) have "process_frame_limitation_status_notification is_valid_int fid mx mn
      orig lt s = Inr s'"
    by simp
  from limitation_status_node [OF this assms(2)] assms
    FrameGetLimitationStatusNotification
  show ?thesis by auto
next
  case OtherFrame
  with assms show ?thesis by auto
qed

theorem both_flags_only_after_reversal_witness:
  "(\<exists>s' n'. process_frame 51200 (valid_int 51200) 0
        (FrameNodeStatePositionChangedNotification 1 40 70 EXECUTING 30)
        house = Inr s' \<and> nodes s' 1 = Some n' \<and> (is_opening n' \<and> is_closing n') = False)
 \<and> (\<exists>s' n'. process_frame 51200 (valid_int 51200) 0
       (FrameNodeStatePositionChangedNotification 1 55 40 EXECUTING 30)
        (house\<lparr>nodes := (nodes house)(1 \<mapsto> closing_node)\<rparr>) = Inr s'
        \<and> nodes s' 1 = Some n' \<and> (is_opening n' \<and> is_closing n') = True)"
proof -
  obtain s1 where r1:
    "process_frame 51200 (valid_int 51200) 0
          (FrameNodeStatePositionChangedNotification 1 40 70 EXECUTING 30)
       house = Inr s1"
    by (simp add: run_defs)
  have n1: "nodes house 1 = Some (idle_node OpeningDeviceClass)"
    by (simp add: house_def)
  have i1: "\<not> (is_opening (idle_node OpeningDeviceClass)
      \<and> is_closing (idle_node OpeningDeviceClass))"
    by (simp add: idle_node_def)
  from both_flags_only_after_reversal [OF r1 n1 i1]
  have a: "\<exists>n'. nodes s1 1 = Some n' \<and> (is_opening n' \<and> is_closing n') = False"
    by (simp add: idle_node_def)
  obtain s2 where r2:
    "process_frame 51200 (valid_int 51200) 0
          (FrameNodeStatePositionChangedNotification 1 55 40 EXECUTING 30)
       (house\<lparr>nodes := (nodes house)(1 \<mapsto> closing_node)\<rparr>) = Inr s2"
    by (simp add: run_defs closing_node_def)
  have n2: "nodes (house\<lparr>nodes := (nodes house)(1 \<mapsto> closing_node)\<rparr>) 1 = Some closing_node"
    by simp
  have i2: "\<not> (is_opening closing_node \<and> is_closing closing_node)"
    by (simp add: closing_node_def idle_node_def)
  from both_flags_only_after_reversal [OF r2 n2 i2]
  have b: "\<exists>n'. nodes s2 1 = Some n' \<and> (is_opening n' \<and> is_closing n') = True"
    by (simp add: closing_node_def idle_node_def isinstance_OpeningDevice_def
        opening_condition_def closing_condition_def)
  from r1 a r2 b show ?thesis by blast
qed

text \<open>
  C3: the claim that a decoded value outside the valid range never changes the field it
  is meant for fails on the code. With \<open>Parameter_MAX\<close> = 51200 (0xC800) and the value
  63487 (0xF7FF), a position frame with a valid position writes the invalid target into
  \<open>target\<close>, and a limitation frame writes the invalid bound into \<open>limitation_max\<close>.
\<close>

theorem invalid_target_and_limits_are_written:
  "\<not> (63487 :: nat) \<le> 51200
   \<and> map_option target (nodes house 1) = Some (Position 0)
   \<and> map_option target (node_after (process_frame 51200 (valid_int 51200) 0
        (FrameNodeStatePositionChangedNotification 1 100 63487 DONE 0) house) 1)
       = Some (Position 63487)
   \<and> map_option limitation_max (nodes house 1) = Some (Position 0)
   \<and> map_option limitation_max (node_after (process_frame 51200 (valid_int 51200) 0
        (FrameGetLimitationStatusNotification 1 63487 0 1 0) house) 1)
       = Some (Position 63487)"
  by (simp add: run_defs)

text \<open>
  C3, as amended: after a call that returns, for the node stored under any id: a position
  frame whose decoded position exceeds \<open>Parameter_MAX\<close> leaves \<open>position\<close>, \<open>target\<close>
  and \<open>intensity\<close> as they were; a status request frame whose main parameter exceeds
  \<open>Parameter_MAX\<close> leaves \<open>position\<close> as it was, and one whose functional parameter 3
  exceeds it leaves \<open>orientation\<close> as it was. Nothing is said here about \<open>target\<close>
  under a valid position, nor about the limitation fields (C7).
\<close>

theorem invalid_values_keep_fields:
  assumes "process_frame Parameter_MAX is_valid_int now f s = Inr s'"
    and "nodes s node_id = Some n"
  shows "\<exists>n'. nodes s' node_id = Some n'
     \<and> (\<forall>fid cur tgt st rt.
          (f = FrameGetAllNodesInformationNotification fid cur tgt st rt
           \<or> f = FrameNodeStatePositionChangedNotification fid cur tgt st rt)
          \<and> Parameter_MAX < cur \<longrightarrow>
          position n' = position n \<and> target n' = target n \<and> intensity n' = intensity n)
     \<and> (\<forall>fid pd mp. f = FrameStatusRequestNotification fid pd
          \<and> pd 0 = Some mp \<and> Parameter_MAX < mp \<longrightarrow> position n' = position n)
     \<and> (\<forall>fid pd fp3. f = FrameStatusRequestNotification fid pd
          \<and> pd 3 = Some fp3 \<and> Parameter_MAX < fp3 \<longrightarrow> orientation n' = orientation n)"
proof (cases f)
  case (FrameGetAllNodesInformationNotification fid cur tgt st rt)
  with assms(1) have "process_position_frame Parameter_MAX now fid cur tgt st rt s = Inr s'"
    by simp
  from position_frame_node [OF this assms(2)] show ?thesis
    by (auto simp: FrameGetAllNodesInformationNotification set_status_fields)
next
  case (FrameNodeStatePositionChangedNotification fid cur tgt st rt)
  with assms(1) have "process_position_frame Parameter_MAX now fid cur tgt st rt s = Inr s'"
    by simp
  from position_frame_node [OF this assms(2)] show ?thesis
    by (auto simp: FrameNodeStatePositionChangedNotification set_status_fields)
next
  case (FrameStatusRequestNotification fid pd)
  with assms status_request_node [OF assms(2), of Parameter_MAX fid pd]
  show ?thesis by (auto split: option.splits)
next
  case (FrameGetLimitationStatusNotification fid mx mn orig lt)
  with assms(1) have "process_frame_limitation_status_notification is_valid_int fid mx mn
      orig lt s = Inr s'"
    by simp
  from limitation_status_node [OF this assms(2)] assms
    FrameGetLimitationStatusNotification
  show ?thesis by auto
next
  case OtherFrame
  with assms show ?thesis by auto
qed

theorem invalid_values_keep_fields_witness:
  "(\<exists>s' n'. process_frame 51200 (valid_int 51200) 0
        (FrameNodeStatePositionChangedNotification 1 63487 63487 DONE 0)
        house = Inr s' \<and> nodes s' 1 = Some n'
      \<and> position n' = Position 0 \<and> target n' = Position 0)
 \<and> (\<exists>s' n'. process_frame 51200 (valid_int 51200) 0
       (FrameGetAllNodesInformationNotification 3 63487 0 DONE 0)
        house = Inr s' \<and> nodes s' 3 = Some n' \<and> intensity n' = Intensity 0)
 \<and> (\<exists>s' n'. process_frame 51200 (valid_int 51200) 0
       (FrameStatusRequestNotification 2 [0 \<mapsto> 63487, 3 \<mapsto> 65535])
        house = Inr s' \<and> nodes s' 2 = Some n'
      \<and> position n' = Position 0 \<and> orientation n' = Position 0)"
proof -
  obtain s1 where r1:
    "process_frame 51200 (valid_int 51200) 0
          (FrameNodeStatePositionChangedNotification 1 63487 63487 DONE 0)
       house = Inr s1"
    by (simp add: run_defs)
  have n1: "nodes house 1 = Some (idle_node OpeningDeviceClass)"
    by (simp add: house_def)
  from invalid_values_keep_fields [OF r1 n1]
  have a: "\<exists>n'. nodes s1 1 = Some n' \<and> position n' = Position 0 \<and> target n' = Position 0"
    by (auto simp: idle_node_def)
  obtain s2 where r2:
    "process_frame 51200 (valid_int 51200) 0
          (FrameGetAllNodesInformationNotification 3 63487 0 DONE 0)
       house = Inr s2"
    by (simp add: run_defs)
  have n2: "nodes house 3 = Some (idle_node LighteningDeviceClass)"
    by (simp add: house_def)
  from invalid_values_keep_fields [OF r2 n2]
  have b: "\<exists>n'. nodes s2 3 = Some n' \<and> intensity n' = Intensity 0"
    by (auto simp: idle_node_def)
  obtain s3 where r3:
    "process_frame 51200 (valid_int 51200) 0
          (FrameStatusRequestNotification 2 [0 \<mapsto> 63487, 3 \<mapsto> 65535])
       house = Inr s3"
    by simp
  have n3: "nodes house 2 = Some (idle_node BlindClass)"
    by (simp add: house_def)
  from invalid_values_keep_fields [OF r3 n3]
  have c: "\<exists>n'. nodes s3 2 = Some n' \<and> position n' = Position 0
      \<and> orientation n' = Position 0"
    by (auto simp: idle_node_def)
  from r1 a r2 b r3 c show ?thesis by blast
qed

text \<open>
  C5: the claim that \<open>estimated_completion\<close> is present exactly when one of the two
  flags is true fails on the code. After a closing frame and then a frame that reports the
  target reached, neither flag is true and \<open>estimated_completion\<close> is still present; after
  a closing frame and then an opening frame it is present and both flags are true.
\<close>

theorem estimated_completion_kept_after_closing:
  "map_option estimated_completion (nodes house 1) = Some None
   \<and> map_option is_opening (node_after (process_frames 51200 (valid_int 51200)
        [(0, FrameNodeStatePositionChangedNotification 1 40 70 EXECUTING 30),
         (30000000, FrameNodeStatePositionChangedNotification 1 70 70 DONE 0)] house) 1)
       = Some False
   \<and> map_option is_closing (node_after (process_frames 51200 (valid_int 51200)
        [(0, FrameNodeStatePositionChangedNotification 1 40 70 EXECUTING 30),
         (30000000, FrameNodeStatePositionChangedNotification 1 70 70 DONE 0)] house) 1)
       = Some False
   \<and> map_option estimated_completion (node_after (process_frames 51200 (valid_int 51200)
        [(0, FrameNodeStatePositionChangedNotification 1 40 70 EXECUTING 30),
         (30000000, FrameNodeStatePositionChangedNotification 1 70 70 DONE 0)] house) 1)
       = Some (Some 30000000)
   \<and> map_option is_opening (node_after (process_frames 51200 (valid_int 51200)
        [(0, FrameNodeStatePositionChangedNotification 1 40 70 EXECUTING 30),
         (5000000, FrameNodeStatePositionChangedNotification 1 55 40 EXECUTING 30)] house) 1)
       = Some True
   \<and> map_option is_closing (node_after (process_frames 51200 (valid_int 51200)
        [(0, FrameNodeStatePositionChangedNotification 1 40 70 EXECUTING 30),
         (5000000, FrameNodeStatePositionChangedNotification 1 55 40 EXECUTING 30)] house) 1)
       = Some True
   \<and> map_option estimated_completion (node_after (process_frames 51200 (valid_int 51200)
        [(0, FrameNodeStatePositionChangedNotification 1 40 70 EXECUTING 30),
         (5000000, FrameNodeStatePositionChangedNotification 1 55 40 EXECUTING 30)] house) 1)
       = Some (Some 35000000)"
  by (simp add: run_defs)

text \<open>
  C5, as amended: after a call with a frame of any kind, for the node stored under any id:
  if the node is opening or closing then \<open>estimated_completion\<close> is present (given this
  held before the call); and if \<open>estimated_completion\<close> is present then at least one of the
  two flags is true, unless the node was not opening before the call and had an
  \<open>estimated_completion\<close> already.
\<close>

theorem estimated_completion_while_moving:
  assumes "process_frame Parameter_MAX is_valid_int now f s = Inr s'"
    and "nodes s node_id = Some n"
    and "is_opening n \<or> is_closing n \<longrightarrow> estimated_completion n \<noteq> None"
  shows "\<exists>n'. nodes s' node_id = Some n'
     \<and> (is_opening n' \<or> is_closing n' \<longrightarrow> estimated_completion n' \<noteq> None)
     \<and> (estimated_completion n' \<noteq> None \<longrightarrow>
          is_opening n' \<or> is_closing n'
          \<or> (\<not> is_opening n \<and> estimated_completion n \<noteq> None))"
proof (cases f)
  case (FrameGetAllNodesInformationNotification fid cur tgt st rt)
  with assms(1) have "process_position_frame Parameter_MAX now fid cur tgt st rt s = Inr s'"
    by simp
  from position_frame_node [OF this assms(2)] assms(3) show ?thesis
    by (auto simp: set_status_flags split: if_splits)
next
  case (FrameNodeStatePositionChangedNotification fid cur tgt st rt)
  with assms(1) have "process_position_frame Parameter_MAX now fid cur tgt st rt s = Inr s'"
    by simp
  from position_frame_node [OF this assms(2)] assms(3) show ?thesis
    by (auto simp: set_status_flags split: if_splits)
next
  case (FrameStatusRequestNotification fid pd)
  with assms status_request_node [OF assms(2), of Parameter_MAX fid pd]
  show ?thesis by (auto split: option.splits)
next
  case (FrameGetLimitationStatusNotification fid mx mn orig lt)
  with assms(1) have "process_frame_limitation_status_notification is_valid_int fid mx mn
      orig lt s = Inr s'"
    by simp
  from limitation_status_node [OF this assms(2)] assms
    FrameGetLimitationStatusNotification
  show ?thesis by auto
next
  case OtherFrame
  with assms show ?thesis by auto
qed

theorem estimated_completion_while_moving_witness:
  "\<exists>s' n'. process_frame 51200 (valid_int 51200) 0
        (FrameNodeStatePositionChangedNotification 1 40 70 EXECUTING 30)
        house = Inr s' \<and> nodes s' 1 = Some n'
      \<and> is_closing n' \<and> estimated_completion n' \<noteq> None"
proof -
  obtain s' where run:
    "process_frame 51200 (valid_int 51200) 0
          (FrameNodeStatePositionChangedNotification 1 40 70 EXECUTING 30)
       house = Inr s'"
    by (simp add: run_defs)
  have n: "nodes house 1 = Some (idle_node OpeningDeviceClass)"
    by (simp add: house_def)
  have inv: "is_opening (idle_node OpeningDeviceClass) \<or> is_closing (idle_node OpeningDeviceClass)
      \<longrightarrow> estimated_completion (idle_node OpeningDeviceClass) \<noteq> None"
    by (simp add: idle_node_def)
  from estimated_completion_while_moving [OF run n inv]
  obtain n' where n': "nodes s' 1 = Some n'"
    and moving: "is_opening n' \<or> is_closing n' \<longrightarrow> estimated_completion n' \<noteq> None"
    by blast
  from run n' have "is_closing n'"
    by (auto simp: run_defs)
  with moving have "estimated_completion n' \<noteq> None" by blast
  with run n' \<open>is_closing n'\<close> show ?thesis by blast
qed

end
